theory Spec2Isabelle
  imports Main
begin

section \<open>JavaScript values\<close>

text \<open>
  The development follows the \<open>LoginRouter\<close> that takes an \<open>authUseCase\<close> and an
  \<open>emailValidator\<close>, and the \<open>HttpResponse\<close> helper with the four static methods
  \<open>badRequest\<close>, \<open>serverError\<close>, \<open>unauthorizedError\<close> and \<open>success\<close>.

  The router reads its request defensively, so the request, its body and the credential
  fields are arbitrary JavaScript values. A promise is represented by the way it
  settles. Numbers are integers plus \<open>NaN\<close>: the router only tests them for
  truthiness. \<open>JError\<close> is a plain \<open>new Error()\<close>, \<open>TypeError\<close> the error the
  runtime throws on a property read of \<open>undefined\<close> or \<open>null\<close> and on a call of
  something that is not a function.
\<close>

datatype 'a settled = Fulfilled 'a | Rejected 'a

text \<open>
  Modelled from the spec: the error classes \<open>MissingParamError\<close>, \<open>InvalidParamError\<close>,
  \<open>UnauthorizedError\<close> and \<open>ServerError\<close> are required by the router and by
  \<open>HttpResponse\<close> but their module is not part of the source tree. The spec
  describes them as a closed set of typed error values, each carrying an optional field
  name; \<open>new MissingParamError(x)\<close> is the value \<open>MissingParamError x\<close>, carrying
  whatever the constructor was given.
\<close>

datatype js_value =
    JUndefined
  | JNull
  | JBool bool
  | JNum int
  | JNaN
  | JStr string
  | JFunction string
  | JObj "(string \<times> js_value) list"
  | JArr "js_value list"
  | JPromise "js_value settled"
  | JError
  | TypeError
  | MissingParamError js_value
  | InvalidParamError js_value
  | UnauthorizedError
  | ServerError

text \<open>An expression either returns a value or throws one.\<close>

datatype 'a completion = Returns 'a | Throws js_value

text \<open>The \<open>typeof\<close> operator; \<open>typeof null\<close> and \<open>typeof []\<close> are both \<open>'object'\<close>.\<close>

fun typeof :: "js_value \<Rightarrow> string" where
  "typeof JUndefined = ''undefined''"
| "typeof (JBool _) = ''boolean''"
| "typeof (JNum _) = ''number''"
| "typeof JNaN = ''number''"
| "typeof (JStr _) = ''string''"
| "typeof (JFunction _) = ''function''"
| "typeof _ = ''object''"

text \<open>Truthiness, as tested by \<open>!x\<close>: the falsy values are \<open>undefined\<close>, \<open>null\<close>,
  \<open>false\<close>, \<open>0\<close>, \<open>NaN\<close> and the empty string.\<close>

fun truthy :: "js_value \<Rightarrow> bool" where
  "truthy JUndefined = False"
| "truthy JNull = False"
| "truthy (JBool b) = b"
| "truthy (JNum n) = (n \<noteq> 0)"
| "truthy JNaN = False"
| "truthy (JStr s) = (s \<noteq> [])"
| "truthy _ = True"

text \<open>
  Property access \<open>v.k\<close>, for the keys the router reads (\<open>body\<close>, \<open>email\<close>,
  \<open>password\<close>): it throws a \<open>TypeError\<close> on \<open>undefined\<close> and \<open>null\<close>, looks the
  key up in a record, and is \<open>undefined\<close> on every other value (primitives, arrays,
  functions, promises and error objects have none of these keys).
\<close>

fun get_prop :: "js_value \<Rightarrow> string \<Rightarrow> js_value completion" where
  "get_prop JUndefined k = Throws TypeError"
| "get_prop JNull k = Throws TypeError"
| "get_prop (JObj ps) k = Returns (case map_of ps k of None \<Rightarrow> JUndefined | Some v \<Rightarrow> v)"
| "get_prop _ k = Returns JUndefined"

text \<open>\<open>await v\<close>: a promise yields its fulfilment value or throws its rejection reason;
  any other value is passed through.\<close>

fun await :: "js_value \<Rightarrow> js_value completion" where
  "await (JPromise (Fulfilled v)) = Returns v"
| "await (JPromise (Rejected e)) = Throws e"
| "await v = Returns v"

section \<open>The error taxonomy as read by the spec\<close>

text \<open>
  Modelled from the spec: a 400 body is described as \<open>{ name: field-error-kind, field:
  name }\<close>. \<open>error_kind\<close> and \<open>error_field\<close> read these two components off an error
  value.
\<close>

datatype field_error_kind = Missing | Invalid | Unauthorized | InternalFailure

fun error_kind :: "js_value \<Rightarrow> field_error_kind option" where
  "error_kind (MissingParamError _) = Some Missing"
| "error_kind (InvalidParamError _) = Some Invalid"
| "error_kind UnauthorizedError = Some Unauthorized"
| "error_kind ServerError = Some InternalFailure"
| "error_kind _ = None"

fun error_field :: "js_value \<Rightarrow> js_value option" where
  "error_field (MissingParamError x) = Some x"
| "error_field (InvalidParamError x) = Some x"
| "error_field _ = None"

section \<open>HttpResponse\<close>

text \<open>A response object \<open>{ statusCode, body }\<close>; \<open>body = None\<close> when the object has no
  \<open>body\<close> property.\<close>

record http_response =
  statusCode :: int
  body :: "js_value option"

text \<open>\<open>static badRequest (message)\<close>: the body is \<open>new MissingParamError(message)\<close>.\<close>

definition HttpResponse_badRequest :: "js_value \<Rightarrow> http_response" where
  "HttpResponse_badRequest message =
     \<lparr>statusCode = 400, body = Some (MissingParamError message)\<rparr>"

definition HttpResponse_serverError :: "http_response" where
  "HttpResponse_serverError = \<lparr>statusCode = 500, body = Some ServerError\<rparr>"

definition HttpResponse_unauthorizedError :: "http_response" where
  "HttpResponse_unauthorizedError = \<lparr>statusCode = 401, body = Some UnauthorizedError\<rparr>"

text \<open>\<open>static success ()\<close> declares no parameter: whatever the caller passes
  (\<open>arguments\<close>) is not read, and the object has no \<open>body\<close>.\<close>

definition HttpResponse_success :: "js_value list \<Rightarrow> http_response" where
  "HttpResponse_success arguments = \<lparr>statusCode = 200, body = None\<rparr>"

section \<open>Collaborators\<close>

text \<open>
  A collaborator handed to the constructor is \<open>undefined\<close> (\<open>NotProvided\<close>), an object
  without the method the router calls (\<open>NoMethod\<close>), or an object with it. Reading the
  method off \<open>undefined\<close> and calling a method that is not there both throw a
  \<open>TypeError\<close>. A method maps its arguments to a completion: it returns a value
  (possibly a promise) or throws. Each call that reaches a method is recorded with the
  arguments it was given.
\<close>

datatype 'm collaborator = NotProvided | NoMethod | Method 'm

datatype call = IsValidCall js_value | AuthCall js_value js_value

record LoginRouter =
  authUseCase :: "(js_value \<Rightarrow> js_value \<Rightarrow> js_value completion) collaborator"
  emailValidator :: "(js_value \<Rightarrow> js_value completion) collaborator"

text \<open>\<open>constructor (authUseCase, emailValidator)\<close>\<close>

definition new_LoginRouter ::
  "(js_value \<Rightarrow> js_value \<Rightarrow> js_value completion) collaborator \<Rightarrow>
   (js_value \<Rightarrow> js_value completion) collaborator \<Rightarrow> LoginRouter" where
  "new_LoginRouter a v = \<lparr>authUseCase = a, emailValidator = v\<rparr>"

text \<open>\<open>this.emailValidator.isValid(email)\<close>: the result is used as it is returned.\<close>

definition isValid_call ::
  "(js_value \<Rightarrow> js_value completion) collaborator \<Rightarrow> js_value \<Rightarrow> call list \<times> js_value completion" where
  "isValid_call v email =
     (case v of
        NotProvided \<Rightarrow> ([], Throws TypeError)
      | NoMethod \<Rightarrow> ([], Throws TypeError)
      | Method isValid \<Rightarrow> ([IsValidCall email], isValid email))"

text \<open>\<open>await this.authUseCase.auth(email, password)\<close>\<close>

definition auth_call ::
  "(js_value \<Rightarrow> js_value \<Rightarrow> js_value completion) collaborator \<Rightarrow> js_value \<Rightarrow> js_value \<Rightarrow>
   call list \<times> js_value completion" where
  "auth_call a email password =
     (case a of
        NotProvided \<Rightarrow> ([], Throws TypeError)
      | NoMethod \<Rightarrow> ([], Throws TypeError)
      | Method auth \<Rightarrow>
          ([AuthCall email password],
           case auth email password of Throws e \<Rightarrow> Throws e | Returns p \<Rightarrow> await p))"

section \<open>LoginRouter.route\<close>

text \<open>\<open>const { email, password } = httpRequest.body\<close>\<close>

definition destructure_body :: "js_value \<Rightarrow> (js_value \<times> js_value) completion" where
  "destructure_body httpRequest =
     (case get_prop httpRequest ''body'' of
        Throws e \<Rightarrow> Throws e
      | Returns b \<Rightarrow>
          (case get_prop b ''email'' of
             Throws e \<Rightarrow> Throws e
           | Returns email \<Rightarrow>
               (case get_prop b ''password'' of
                  Throws e \<Rightarrow> Throws e
                | Returns password \<Rightarrow> Returns (email, password))))"

text \<open>The \<open>try\<close> block of \<open>route\<close>, with the collaborator calls it made.\<close>

definition route_try :: "LoginRouter \<Rightarrow> js_value \<Rightarrow> call list \<times> http_response completion" where
  "route_try this httpRequest =
     (case get_prop httpRequest ''body'' of
        Throws e \<Rightarrow> ([], Throws e)
      | Returns b \<Rightarrow>
          if typeof b \<noteq> ''object'' then ([], Returns HttpResponse_serverError)
          else
            (case destructure_body httpRequest of
               Throws e \<Rightarrow> ([], Throws e)
             | Returns (email, password) \<Rightarrow>
                 if \<not> truthy email
                 then ([], Returns (HttpResponse_badRequest (MissingParamError (JStr ''email''))))
                 else
                   (case isValid_call (emailValidator this) email of
                      (log, Throws e) \<Rightarrow> (log, Throws e)
                    | (log, Returns verdict) \<Rightarrow>
                        if \<not> truthy verdict
                        then (log, Returns (HttpResponse_badRequest (InvalidParamError (JStr ''email''))))
                        else if \<not> truthy password
                        then (log, Returns (HttpResponse_badRequest (MissingParamError (JStr ''password''))))
                        else
                          (case auth_call (authUseCase this) email password of
                             (log', Throws e) \<Rightarrow> (log @ log', Throws e)
                           | (log', Returns accessToken) \<Rightarrow>
                               if \<not> truthy accessToken
                               then (log @ log', Returns HttpResponse_unauthorizedError)
                               else (log @ log',
                                     Returns (HttpResponse_success
                                                [JObj [(''accessToken'', accessToken)]]))))))"

text \<open>\<open>async route (httpRequest)\<close>: the \<open>catch\<close> clause turns whatever the \<open>try\<close> block
  threw into \<open>HttpResponse.serverError()\<close>. The completion is how the promise returned
  by \<open>route\<close> settles.\<close>

definition route_traced :: "LoginRouter \<Rightarrow> js_value \<Rightarrow> call list \<times> http_response completion" where
  "route_traced this httpRequest =
     (case route_try this httpRequest of
        (log, Throws error) \<Rightarrow> (log, Returns HttpResponse_serverError)
      | (log, Returns response) \<Rightarrow> (log, Returns response))"

definition route :: "LoginRouter \<Rightarrow> js_value \<Rightarrow> http_response completion" where
  "route this httpRequest = snd (route_traced this httpRequest)"

section \<open>Collaborators with a state of their own\<close>

text \<open>
  The spies of the test suite write the arguments they receive into their own fields,
  and a collaborator may answer one call differently from the next. To follow two calls
  in a row, the objects \<open>route\<close> can reach are put in a heap: the two fields of the
  router instance, \<open>this.authUseCase\<close> and \<open>this.emailValidator\<close>, and the private
  state of each collaborator. A method takes the state of its own object and returns
  the state it leaves with its completion; it holds no reference to the router.
\<close>

type_synonym 'v isValid_method = "'v \<Rightarrow> js_value \<Rightarrow> js_value completion \<times> 'v"
type_synonym 'a auth_method = "'a \<Rightarrow> js_value \<Rightarrow> js_value \<Rightarrow> js_value completion \<times> 'a"

record ('a, 'v) heap =
  this_authUseCase :: "'a auth_method collaborator"
  this_emailValidator :: "'v isValid_method collaborator"
  authUseCase_state :: 'a
  emailValidator_state :: 'v

text \<open>
  \<open>this.emailValidator.isValid(email)\<close>, reading the field from the heap and storing
  the state the validator leaves.
\<close>

definition isValid_call_st ::
  "('a, 'v) heap \<Rightarrow> js_value \<Rightarrow> js_value completion \<times> ('a, 'v) heap" where
  "isValid_call_st h email =
     (case this_emailValidator h of
        NotProvided \<Rightarrow> (Throws TypeError, h)
      | NoMethod \<Rightarrow> (Throws TypeError, h)
      | Method isValid \<Rightarrow>
          (case isValid (emailValidator_state h) email of
             (verdict, s) \<Rightarrow> (verdict, h\<lparr>emailValidator_state := s\<rparr>)))"

text \<open>
  \<open>await this.authUseCase.auth(email, password)\<close>, likewise.
\<close>

definition auth_call_st ::
  "('a, 'v) heap \<Rightarrow> js_value \<Rightarrow> js_value \<Rightarrow> js_value completion \<times> ('a, 'v) heap" where
  "auth_call_st h email password =
     (case this_authUseCase h of
        NotProvided \<Rightarrow> (Throws TypeError, h)
      | NoMethod \<Rightarrow> (Throws TypeError, h)
      | Method auth \<Rightarrow>
          (case auth (authUseCase_state h) email password of
             (Throws e, s) \<Rightarrow> (Throws e, h\<lparr>authUseCase_state := s\<rparr>)
           | (Returns p, s) \<Rightarrow> (await p, h\<lparr>authUseCase_state := s\<rparr>)))"

text \<open>
  The \<open>try\<close> block again, statement by statement, each statement handing the heap to
  the next.
\<close>

definition route_try_st ::
  "('a, 'v) heap \<Rightarrow> js_value \<Rightarrow> http_response completion \<times> ('a, 'v) heap" where
  "route_try_st h httpRequest =
     (case get_prop httpRequest ''body'' of
        Throws e \<Rightarrow> (Throws e, h)
      | Returns b \<Rightarrow>
          if typeof b \<noteq> ''object'' then (Returns HttpResponse_serverError, h)
          else
            (case destructure_body httpRequest of
               Throws e \<Rightarrow> (Throws e, h)
             | Returns (email, password) \<Rightarrow>
                 if \<not> truthy email
                 then (Returns (HttpResponse_badRequest (MissingParamError (JStr ''email''))), h)
                 else
                   (case isValid_call_st h email of
                      (Throws e, h1) \<Rightarrow> (Throws e, h1)
                    | (Returns verdict, h1) \<Rightarrow>
                        if \<not> truthy verdict
                        then (Returns (HttpResponse_badRequest (InvalidParamError (JStr ''email''))), h1)
                        else if \<not> truthy password
                        then (Returns (HttpResponse_badRequest (MissingParamError (JStr ''password''))), h1)
                        else
                          (case auth_call_st h1 email password of
                             (Throws e, h2) \<Rightarrow> (Throws e, h2)
                           | (Returns accessToken, h2) \<Rightarrow>
                               if \<not> truthy accessToken
                               then (Returns HttpResponse_unauthorizedError, h2)
                               else (Returns (HttpResponse_success
                                                [JObj [(''accessToken'', accessToken)]]), h2)))))"

text \<open>
  \<open>async route (httpRequest)\<close> on a heap: the response and the heap the call leaves.
\<close>

definition route_st ::
  "('a, 'v) heap \<Rightarrow> js_value \<Rightarrow> http_response completion \<times> ('a, 'v) heap" where
  "route_st h httpRequest =
     (case route_try_st h httpRequest of
        (Throws error, h') \<Rightarrow> (Returns HttpResponse_serverError, h')
      | (Returns response, h') \<Rightarrow> (Returns response, h'))"

text \<open>
  The router as a heap presents it at one moment: each method applied to the current
  state of its object, the state it would leave dropped.
\<close>

definition frozen :: "('a, 'v) heap \<Rightarrow> LoginRouter" where
  "frozen h =
     \<lparr>authUseCase =
        map_collaborator (\<lambda>auth email password. fst (auth (authUseCase_state h) email password))
          (this_authUseCase h),
      emailValidator =
        map_collaborator (\<lambda>isValid email. fst (isValid (emailValidator_state h) email))
          (this_emailValidator h)\<rparr>"

text \<open>
  A deterministic collaborator answers a call by its arguments alone: after any earlier
  call on it, it answers as it would have before.
\<close>

definition deterministic_isValid :: "'v isValid_method collaborator \<Rightarrow> bool" where
  "deterministic_isValid c =
     (case c of
        Method isValid \<Rightarrow> (\<forall>s x y. fst (isValid (snd (isValid s x)) y) = fst (isValid s y))
      | _ \<Rightarrow> True)"

definition deterministic_auth :: "'a auth_method collaborator \<Rightarrow> bool" where
  "deterministic_auth c =
     (case c of
        Method auth \<Rightarrow>
          (\<forall>s x x' y y'. fst (auth (snd (auth s x x')) y y') = fst (auth s y y'))
      | _ \<Rightarrow> True)"

section \<open>Test doubles\<close>

text \<open>
  The collaborators the router's test suite builds. \<open>makeAuthUseCase\<close> is the spy whose
  \<open>async auth\<close> resolves to its \<open>accessToken\<close> property; \<open>makeEmailValidator\<close> is the
  spy whose \<open>isValid\<close> returns its \<open>isEmailValid\<close> property; the \<open>WithError\<close> variants
  throw \<open>new Error()\<close>; \<open>makeSut\<close> wires the two spies with \<open>'any_token'\<close> and
  \<open>true\<close>.
\<close>

definition makeAuthUseCase ::
  "js_value \<Rightarrow> (js_value \<Rightarrow> js_value \<Rightarrow> js_value completion) collaborator" where
  "makeAuthUseCase accessToken =
     Method (\<lambda>email password. Returns (JPromise (Fulfilled accessToken)))"

definition makeAuthUseCaseWithError ::
  "(js_value \<Rightarrow> js_value \<Rightarrow> js_value completion) collaborator" where
  "makeAuthUseCaseWithError = Method (\<lambda>email password. Throws JError)"

definition makeEmailValidator :: "js_value \<Rightarrow> (js_value \<Rightarrow> js_value completion) collaborator" where
  "makeEmailValidator isEmailValid = Method (\<lambda>email. Returns isEmailValid)"

definition makeEmailValidatorWithError :: "(js_value \<Rightarrow> js_value completion) collaborator" where
  "makeEmailValidatorWithError = Method (\<lambda>email. Throws JError)"

definition makeSut :: LoginRouter where
  "makeSut =
     new_LoginRouter (makeAuthUseCase (JStr ''any_token'')) (makeEmailValidator (JBool True))"

text \<open>
  Two further validators, which the test suite does not have: one whose \<open>isValid\<close> is
  an \<open>async\<close> method resolving to \<open>isEmailValid\<close>, and one whose \<open>async isValid\<close>
  rejects with \<open>new Error()\<close>.
\<close>

definition makeAsyncEmailValidator ::
  "js_value \<Rightarrow> (js_value \<Rightarrow> js_value completion) collaborator" where
  "makeAsyncEmailValidator isEmailValid =
     Method (\<lambda>email. Returns (JPromise (Fulfilled isEmailValid)))"

definition makeAsyncEmailValidatorWithError ::
  "(js_value \<Rightarrow> js_value completion) collaborator" where
  "makeAsyncEmailValidatorWithError = Method (\<lambda>email. Returns (JPromise (Rejected JError)))"

text \<open>
  The spies with their fields. \<open>AuthUseCaseSpy.auth\<close> stores \<open>email\<close> and
  \<open>password\<close> on itself and resolves to its \<open>accessToken\<close>;
  \<open>EmailValidatorSpy.isValid\<close> stores \<open>email\<close> and returns its \<open>isEmailValid\<close>.
  \<open>makeSut_heap\<close> is \<open>makeSut\<close> with these two, before any call.
\<close>

record AuthUseCaseSpy =
  auth_email :: js_value
  auth_password :: js_value
  auth_accessToken :: js_value

record EmailValidatorSpy =
  validator_email :: js_value
  validator_isEmailValid :: js_value

definition AuthUseCaseSpy_auth :: "AuthUseCaseSpy auth_method" where
  "AuthUseCaseSpy_auth this email password =
     (Returns (JPromise (Fulfilled (auth_accessToken this))),
      this\<lparr>auth_email := email, auth_password := password\<rparr>)"

definition EmailValidatorSpy_isValid :: "EmailValidatorSpy isValid_method" where
  "EmailValidatorSpy_isValid this email =
     (Returns (validator_isEmailValid this), this\<lparr>validator_email := email\<rparr>)"

definition makeSut_heap :: "js_value \<Rightarrow> js_value \<Rightarrow> (AuthUseCaseSpy, EmailValidatorSpy) heap" where
  "makeSut_heap isEmailValid accessToken =
     \<lparr>this_authUseCase = Method AuthUseCaseSpy_auth,
      this_emailValidator = Method EmailValidatorSpy_isValid,
      authUseCase_state =
        \<lparr>auth_email = JUndefined, auth_password = JUndefined, auth_accessToken = accessToken\<rparr>,
      emailValidator_state =
        \<lparr>validator_email = JUndefined, validator_isEmailValid = isEmailValid\<rparr>\<rparr>"

text \<open>
  An authenticator that is not deterministic, which the test suite does not have: it
  resolves to a token on its first call and to \<open>null\<close> afterwards.
\<close>

definition one_time_auth :: "bool auth_method" where
  "one_time_auth used email password =
     (Returns (JPromise (Fulfilled (if used then JNull else JStr ''any_token''))), True)"

text \<open>The request \<open>{ body: b }\<close>.\<close>

definition request_with_body :: "js_value \<Rightarrow> js_value" where
  "request_with_body b = JObj [(''body'', b)]"

section \<open>Basic facts\<close>

lemmas route_defs = route_def route_traced_def route_try_def
  destructure_body_def isValid_call_def auth_call_def

lemmas double_defs = new_LoginRouter_def makeAuthUseCase_def makeEmailValidator_def
  makeSut_def request_with_body_def

lemmas response_defs = HttpResponse_badRequest_def HttpResponse_serverError_def
  HttpResponse_unauthorizedError_def HttpResponse_success_def

lemma typeof_object_get_prop:
  "typeof b = ''object'' \<Longrightarrow> b \<noteq> JNull \<Longrightarrow> \<exists>v. get_prop b k = Returns v"
  by (cases b) simp_all

lemma get_prop_Throws:
  "get_prop v k = Throws e \<longleftrightarrow> (v = JUndefined \<or> v = JNull) \<and> e = TypeError"
  by (cases v) auto

text \<open>
  The order of the checks. A falsy email ends the call at the first \<open>badRequest\<close>,
  before either collaborator is touched; an email the validator rejects ends it at the
  second, before the password is looked at.
\<close>

lemma route_missing_email:
  assumes "get_prop httpRequest ''body'' = Returns b" and "typeof b = ''object''"
    and "get_prop b ''email'' = Returns email" and "\<not> truthy email"
  shows "route this httpRequest =
           Returns (HttpResponse_badRequest (MissingParamError (JStr ''email'')))"
proof -
  from assms(3) have "b \<noteq> JNull" by auto
  with assms(2) obtain password where "get_prop b ''password'' = Returns password"
    using typeof_object_get_prop by blast
  with assms show ?thesis by (simp add: route_defs)
qed

lemma route_invalid_email:
  assumes "get_prop httpRequest ''body'' = Returns b" and "typeof b = ''object''"
    and "get_prop b ''email'' = Returns email" and "truthy email"
    and "emailValidator this = Method isValid" and "isValid email = Returns verdict"
    and "\<not> truthy verdict"
  shows "route this httpRequest =
           Returns (HttpResponse_badRequest (InvalidParamError (JStr ''email'')))"
proof -
  from assms(3) have "b \<noteq> JNull" by auto
  with assms(2) obtain password where "get_prop b ''password'' = Returns password"
    using typeof_object_get_prop by blast
  with assms show ?thesis by (simp add: route_defs)
qed

lemma route_missing_password:
  assumes "get_prop httpRequest ''body'' = Returns b" and "typeof b = ''object''"
    and "get_prop b ''email'' = Returns email" and "truthy email"
    and "get_prop b ''password'' = Returns password" and "\<not> truthy password"
    and "emailValidator this = Method isValid" and "isValid email = Returns verdict"
    and "truthy verdict"
  shows "route this httpRequest =
           Returns (HttpResponse_badRequest (MissingParamError (JStr ''password'')))"
  using assms by (simp add: route_defs)

lemma route_success:
  assumes "get_prop httpRequest ''body'' = Returns b" and "typeof b = ''object''"
    and "get_prop b ''email'' = Returns email" and "truthy email"
    and "get_prop b ''password'' = Returns password" and "truthy password"
    and "emailValidator this = Method isValid" and "isValid email = Returns verdict"
    and "truthy verdict"
    and "authUseCase this = Method auth" and "auth email password = Returns p"
    and "await p = Returns accessToken" and "truthy accessToken"
  shows "route this httpRequest =
           Returns (HttpResponse_success [JObj [(''accessToken'', accessToken)]])"
  using assms by (simp add: route_defs)

section \<open>The success response\<close>

text \<open>
  C1. A request with a non-empty email and password, a validator that accepts the email
  and an authenticator that yields the token \<open>'tok123'\<close> should be answered with status
  200 and the body \<open>{ accessToken: 'tok123' }\<close>. \<open>route\<close> hands \<open>{ accessToken }\<close> to
  \<open>HttpResponse.success\<close>, which declares no parameter: the response has status 200 and
  no body at all.
\<close>

theorem route_success_body_absent:
  "route (new_LoginRouter (makeAuthUseCase (JStr ''tok123'')) (makeEmailValidator (JBool True)))
         (request_with_body (JObj [(''email'', JStr ''a@b.com''), (''password'', JStr ''p'')]))
     = Returns \<lparr>statusCode = 200, body = None\<rparr>
   \<and> route (new_LoginRouter (makeAuthUseCase (JStr ''tok123'')) (makeEmailValidator (JBool True)))
         (request_with_body (JObj [(''email'', JStr ''a@b.com''), (''password'', JStr ''p'')]))
     \<noteq> Returns \<lparr>statusCode = 200, body = Some (JObj [(''accessToken'', JStr ''tok123'')])\<rparr>"
  by (simp add: route_defs double_defs response_defs)

section \<open>The 400 bodies\<close>

text \<open>
  C2. The body of a 400 response should have the kind of the error it reports: missing
  for a missing field, invalid for an email the validator rejects. \<open>badRequest\<close> wraps
  whatever it is given in a new \<open>MissingParamError\<close>, so the body for an invalid email
  has the kind missing, and the field it carries is the \<open>InvalidParamError\<close> object, not
  the field name.
\<close>

theorem badRequest_invalid_param_kind:
  "body (HttpResponse_badRequest (InvalidParamError (JStr ''email'')))
     = Some (MissingParamError (InvalidParamError (JStr ''email'')))
   \<and> Option.bind (body (HttpResponse_badRequest (InvalidParamError (JStr ''email'')))) error_kind
     = Some Missing
   \<and> Option.bind (body (HttpResponse_badRequest (InvalidParamError (JStr ''email'')))) error_field
     \<noteq> Some (JStr ''email'')
   \<and> route (new_LoginRouter (makeAuthUseCase (JStr ''any_token'')) (makeEmailValidator (JBool False)))
         (request_with_body
            (JObj [(''email'', JStr ''any_email@eu.com''), (''password'', JStr ''any_password'')]))
     = Returns \<lparr>statusCode = 400,
                 body = Some (MissingParamError (InvalidParamError (JStr ''email'')))\<rparr>"
  by (simp add: route_defs double_defs response_defs)

text \<open>
  C8. A record body without an email should be answered with status 400 and the
  missing-email body, whatever else is configured. The status is 400 (lemma
  \<open>route_missing_email\<close> holds for every router), but the body \<open>badRequest\<close> builds is
  a \<open>MissingParamError\<close> wrapped around the \<open>MissingParamError\<close> for the email, as here
  for the body \<open>{ password: 'any_password' }\<close>.
\<close>

theorem route_missing_email_body:
  "route makeSut (request_with_body (JObj [(''password'', JStr ''any_password'')]))
     = Returns \<lparr>statusCode = 400,
                 body = Some (MissingParamError (MissingParamError (JStr ''email'')))\<rparr>
   \<and> route makeSut (request_with_body (JObj [(''password'', JStr ''any_password'')]))
     \<noteq> Returns \<lparr>statusCode = 400, body = Some (MissingParamError (JStr ''email''))\<rparr>"
  by (simp add: route_defs double_defs response_defs)

text \<open>
  C5. The checks run in the order body shape, email presence, email syntax, password
  presence, authentication, and the first failing one decides the response. For a body
  with an email the validator rejects and no password, \<open>route\<close> stops at the email
  syntax check, and for an empty email without an authenticator it stops at the email
  presence check; in both the body is what \<open>badRequest\<close> makes of the error, a
  \<open>MissingParamError\<close> around it, so the first is not the invalid-email response.
\<close>

theorem route_invalid_email_missing_password:
  "route (new_LoginRouter (makeAuthUseCase (JStr ''any_token'')) (makeEmailValidator (JBool False)))
         (request_with_body (JObj [(''email'', JStr ''any_email'')]))
     = Returns \<lparr>statusCode = 400,
                 body = Some (MissingParamError (InvalidParamError (JStr ''email'')))\<rparr>
   \<and> route (new_LoginRouter (makeAuthUseCase (JStr ''any_token'')) (makeEmailValidator (JBool False)))
         (request_with_body (JObj [(''email'', JStr ''any_email'')]))
     \<noteq> Returns \<lparr>statusCode = 400, body = Some (InvalidParamError (JStr ''email''))\<rparr>
   \<and> route (new_LoginRouter NotProvided (makeEmailValidator (JBool True)))
         (request_with_body (JObj [(''email'', JStr []), (''password'', JStr ''any_password'')]))
     = Returns \<lparr>statusCode = 400,
                 body = Some (MissingParamError (MissingParamError (JStr ''email'')))\<rparr>"
  by (simp add: route_defs double_defs response_defs)

section \<open>Requests without a usable body\<close>

text \<open>
  C3, as amended. When the request is absent (\<open>undefined\<close>, or \<open>null\<close>), or its
  \<open>body\<close> is absent or is a value whose \<open>typeof\<close> is not \<open>'object'\<close> (a string, a
  number, a boolean, a function), or is \<open>null\<close>, \<open>route\<close> answers with status 500 and
  the \<open>ServerError\<close> body, whatever the collaborators are.
\<close>

theorem route_non_object_body:
  assumes "httpRequest = JUndefined \<or> httpRequest = JNull \<or>
     (\<exists>b. get_prop httpRequest ''body'' = Returns b \<and> (typeof b \<noteq> ''object'' \<or> b = JNull))"
  shows "route this httpRequest = Returns \<lparr>statusCode = 500, body = Some ServerError\<rparr>"
  using assms by (auto simp add: route_defs response_defs)

text \<open>C3, witness: the absent request, the request without a body, a string body and a
  \<open>null\<close> body.\<close>

theorem route_non_object_body_witness:
  "get_prop (request_with_body (JStr ''string test'')) ''body'' = Returns (JStr ''string test'')
   \<and> typeof (JStr ''string test'') \<noteq> ''object''
   \<and> route makeSut (request_with_body (JStr ''string test''))
       = Returns \<lparr>statusCode = 500, body = Some ServerError\<rparr>
   \<and> route makeSut JUndefined = Returns \<lparr>statusCode = 500, body = Some ServerError\<rparr>
   \<and> route makeSut (JObj []) = Returns \<lparr>statusCode = 500, body = Some ServerError\<rparr>
   \<and> route makeSut (request_with_body JNull)
       = Returns \<lparr>statusCode = 500, body = Some ServerError\<rparr>"
  using route_non_object_body [of "request_with_body (JStr ''string test'')" makeSut]
    route_non_object_body [of JUndefined makeSut]
    route_non_object_body [of "JObj []" makeSut]
    route_non_object_body [of "request_with_body JNull" makeSut]
  by (simp add: request_with_body_def)

text \<open>
  C3, counterexample. An array is not a key-value record, but \<open>typeof []\<close> is
  \<open>'object'\<close>: the guard lets it through, its \<open>email\<close> is \<open>undefined\<close>, and the
  response is the 400 of a missing email, not a 500.
\<close>

theorem route_array_body_counterexample:
  "route makeSut (request_with_body (JArr []))
     = Returns \<lparr>statusCode = 400,
                 body = Some (MissingParamError (MissingParamError (JStr ''email'')))\<rparr>
   \<and> route makeSut (request_with_body (JArr []))
     \<noteq> Returns \<lparr>statusCode = 500, body = Some ServerError\<rparr>"
  by (simp add: route_defs double_defs response_defs)

section \<open>A validator that answers asynchronously\<close>

text \<open>
  C4, as amended. \<open>route\<close> tests the value \<open>isValid\<close> returns without awaiting it. A
  validator that answers through a promise is therefore taken to accept the email,
  however the promise settles: for every router and request, the response with such a
  validator is the response with a synchronous validator that returns \<open>true\<close>. The
  responses of the asynchronous and the synchronous validator agree when the verdict is
  \<open>true\<close>.
\<close>

theorem route_async_validator_unawaited:
  "route (this\<lparr>emailValidator := Method (\<lambda>email. Returns (JPromise (settle email)))\<rparr>) httpRequest
   = route (this\<lparr>emailValidator := Method (\<lambda>email. Returns (JBool True))\<rparr>) httpRequest"
  by (simp add: route_defs split: completion.splits prod.splits)

text \<open>
  C4, counterexample. With the verdict \<open>false\<close>, the synchronous validator leads to the
  400 of an invalid email, the asynchronous one to the authenticator and its 200.
\<close>

theorem route_async_validator_counterexample:
  "route (new_LoginRouter (makeAuthUseCase (JStr ''any_token'')) (makeAsyncEmailValidator (JBool False)))
         (request_with_body
            (JObj [(''email'', JStr ''any_email@eu.com''), (''password'', JStr ''any_password'')]))
   \<noteq> route (new_LoginRouter (makeAuthUseCase (JStr ''any_token'')) (makeEmailValidator (JBool False)))
         (request_with_body
            (JObj [(''email'', JStr ''any_email@eu.com''), (''password'', JStr ''any_password'')]))"
  by (simp add: route_defs double_defs response_defs makeAsyncEmailValidator_def)

section \<open>Collaborator faults\<close>

text \<open>
  C6, as amended. \<open>route\<close> settles with a response for every request and every pair of
  collaborators: nothing thrown inside it reaches the caller. When the body is an object
  with an email and the validator is absent, has no \<open>isValid\<close>, or throws, the
  response is the 500 with the \<open>ServerError\<close> body; so it is when the validator
  accepts, the password is present and the authenticator is absent, has no \<open>auth\<close>,
  throws, or returns a promise that rejects. (A validator whose promise rejects is not among these: its promise is
  never awaited.)
\<close>

theorem route_always_responds:
  "(\<exists>response. route this httpRequest = Returns response)
   \<and> (\<forall>b email password.
        get_prop httpRequest ''body'' = Returns b \<and> typeof b = ''object''
        \<and> get_prop b ''email'' = Returns email \<and> get_prop b ''password'' = Returns password
        \<and> truthy email \<longrightarrow>
          ((emailValidator this = NotProvided \<or> emailValidator this = NoMethod
            \<or> (\<exists>isValid e. emailValidator this = Method isValid \<and> isValid email = Throws e))
           \<longrightarrow> route this httpRequest = Returns \<lparr>statusCode = 500, body = Some ServerError\<rparr>)
        \<and> ((\<exists>isValid verdict. emailValidator this = Method isValid
                \<and> isValid email = Returns verdict \<and> truthy verdict)
            \<and> truthy password
            \<and> (authUseCase this = NotProvided \<or> authUseCase this = NoMethod
                \<or> (\<exists>auth e. authUseCase this = Method auth
                      \<and> (auth email password = Throws e
                          \<or> auth email password = Returns (JPromise (Rejected e)))))
           \<longrightarrow> route this httpRequest = Returns \<lparr>statusCode = 500, body = Some ServerError\<rparr>))"
proof -
  have responds: "\<exists>response. route this httpRequest = Returns response"
    by (simp add: route_def route_traced_def split: prod.splits completion.splits)
  have validator: "route this httpRequest = Returns \<lparr>statusCode = 500, body = Some ServerError\<rparr>"
    if "get_prop httpRequest ''body'' = Returns b" "typeof b = ''object''"
      "get_prop b ''email'' = Returns email" "get_prop b ''password'' = Returns password"
      "truthy email"
      "emailValidator this = NotProvided \<or> emailValidator this = NoMethod
         \<or> (\<exists>isValid e. emailValidator this = Method isValid \<and> isValid email = Throws e)"
    for b email password
    using that by (auto simp add: route_defs response_defs)
  have authenticator: "route this httpRequest = Returns \<lparr>statusCode = 500, body = Some ServerError\<rparr>"
    if "get_prop httpRequest ''body'' = Returns b" "typeof b = ''object''"
      "get_prop b ''email'' = Returns email" "get_prop b ''password'' = Returns password"
      "truthy email" "truthy password"
      "emailValidator this = Method isValid" "isValid email = Returns verdict" "truthy verdict"
      "authUseCase this = NotProvided \<or> authUseCase this = NoMethod
         \<or> (\<exists>auth e. authUseCase this = Method auth
               \<and> (auth email password = Throws e
                   \<or> auth email password = Returns (JPromise (Rejected e))))"
    for b email password isValid verdict
    using that by (auto simp add: route_defs response_defs)
  from responds validator authenticator show ?thesis by blast
qed

text \<open>
  C6, witness: the router built without a validator, the router whose validator throws
  and the router whose authenticator throws, on a request with both credentials.
\<close>

theorem route_always_responds_witness:
  "truthy (JStr ''any_email@email.com'') \<and> truthy (JStr ''123456'')
   \<and> route (new_LoginRouter (makeAuthUseCase (JStr ''any_token'')) NotProvided)
        (request_with_body
           (JObj [(''email'', JStr ''any_email@email.com''), (''password'', JStr ''123456'')]))
      = Returns \<lparr>statusCode = 500, body = Some ServerError\<rparr>
   \<and> route (new_LoginRouter (makeAuthUseCase (JStr ''any_token'')) makeEmailValidatorWithError)
        (request_with_body
           (JObj [(''email'', JStr ''any_email@email.com''), (''password'', JStr ''123456'')]))
      = Returns \<lparr>statusCode = 500, body = Some ServerError\<rparr>
   \<and> route (new_LoginRouter makeAuthUseCaseWithError (makeEmailValidator (JBool True)))
        (request_with_body
           (JObj [(''email'', JStr ''any_email@email.com''), (''password'', JStr ''123456'')]))
      = Returns \<lparr>statusCode = 500, body = Some ServerError\<rparr>"
proof -
  let ?b = "JObj [(''email'', JStr ''any_email@email.com''), (''password'', JStr ''123456'')]"
  let ?email = "JStr ''any_email@email.com''" and ?password = "JStr ''123456''"
  let ?no_validator = "new_LoginRouter (makeAuthUseCase (JStr ''any_token'')) NotProvided"
  let ?validator_throws =
    "new_LoginRouter (makeAuthUseCase (JStr ''any_token'')) makeEmailValidatorWithError"
  let ?auth_throws = "new_LoginRouter makeAuthUseCaseWithError (makeEmailValidator (JBool True))"
  note validator_absent = route_always_responds
    [of ?no_validator "request_with_body ?b",
     THEN conjunct2, rule_format, of ?b ?email ?password, THEN conjunct1]
  note validator_raises = route_always_responds
    [of ?validator_throws "request_with_body ?b",
     THEN conjunct2, rule_format, of ?b ?email ?password, THEN conjunct1]
  note authenticator_raises = route_always_responds
    [of ?auth_throws "request_with_body ?b",
     THEN conjunct2, rule_format, of ?b ?email ?password, THEN conjunct2]
  have "route ?no_validator (request_with_body ?b)
      = Returns \<lparr>statusCode = 500, body = Some ServerError\<rparr>"
    by (rule validator_absent [rule_format]) (simp_all add: double_defs)
  moreover have "route ?validator_throws (request_with_body ?b)
      = Returns \<lparr>statusCode = 500, body = Some ServerError\<rparr>"
    by (rule validator_raises [rule_format])
       (simp_all add: double_defs makeEmailValidatorWithError_def)
  moreover have "route ?auth_throws (request_with_body ?b)
      = Returns \<lparr>statusCode = 500, body = Some ServerError\<rparr>"
    by (rule authenticator_raises [rule_format])
       (simp_all add: double_defs makeAuthUseCaseWithError_def)
  ultimately show ?thesis by simp
qed

text \<open>
  C6, counterexample. A validator whose \<open>async isValid\<close> rejects is a collaborator
  fault that \<open>route\<close> does not turn into a 500: the rejected promise is truthy, the call
  goes on to the authenticator and ends with status 200.
\<close>

theorem route_validator_rejection_counterexample:
  "route (new_LoginRouter (makeAuthUseCase (JStr ''any_token'')) makeAsyncEmailValidatorWithError)
        (request_with_body (JObj [(''email'', JStr ''any_email@email.com''), (''password'', JStr ''123456'')]))
     = Returns \<lparr>statusCode = 200, body = None\<rparr>
   \<and> route (new_LoginRouter (makeAuthUseCase (JStr ''any_token'')) makeAsyncEmailValidatorWithError)
        (request_with_body (JObj [(''email'', JStr ''any_email@email.com''), (''password'', JStr ''123456'')]))
     \<noteq> Returns \<lparr>statusCode = 500, body = Some ServerError\<rparr>"
  by (simp add: route_defs double_defs response_defs makeAsyncEmailValidatorWithError_def)

section \<open>Invalid credentials\<close>

text \<open>
  C7. When the body is an object with a truthy email and password, the validator accepts
  the email and the authenticator's result, once awaited, is falsy (\<open>undefined\<close>,
  \<open>null\<close>, the empty string), the response is the 401 with the \<open>UnauthorizedError\<close>
  body.
\<close>

theorem route_unauthorized:
  assumes "get_prop httpRequest ''body'' = Returns b" and "typeof b = ''object''"
    and "get_prop b ''email'' = Returns email" and "get_prop b ''password'' = Returns password"
    and "truthy email" and "truthy password"
    and "emailValidator this = Method isValid" and "isValid email = Returns verdict"
    and "truthy verdict"
    and "authUseCase this = Method auth" and "auth email password = Returns p"
    and "await p = Returns accessToken" and "\<not> truthy accessToken"
  shows "route this httpRequest = Returns \<lparr>statusCode = 401, body = Some UnauthorizedError\<rparr>"
  using assms by (simp add: route_defs response_defs)

text \<open>
  C7, witness: the spy authenticator with \<open>accessToken = null\<close>.
\<close>

theorem route_unauthorized_witness:
  "truthy (JStr ''invalid_email@email.com'') \<and> truthy (JStr ''invalid_password'')
   \<and> truthy (JBool True) \<and> await (JPromise (Fulfilled JNull)) = Returns JNull \<and> \<not> truthy JNull
   \<and> route (new_LoginRouter (makeAuthUseCase JNull) (makeEmailValidator (JBool True)))
        (request_with_body
           (JObj [(''email'', JStr ''invalid_email@email.com''), (''password'', JStr ''invalid_password'')]))
      = Returns \<lparr>statusCode = 401, body = Some UnauthorizedError\<rparr>"
  using route_unauthorized
    [where this = "new_LoginRouter (makeAuthUseCase JNull) (makeEmailValidator (JBool True))"
       and httpRequest = "request_with_body
           (JObj [(''email'', JStr ''invalid_email@email.com''), (''password'', JStr ''invalid_password'')])"
       and b = "JObj [(''email'', JStr ''invalid_email@email.com''), (''password'', JStr ''invalid_password'')]"
       and email = "JStr ''invalid_email@email.com''" and password = "JStr ''invalid_password''"
       and isValid = "\<lambda>email. Returns (JBool True)" and verdict = "JBool True"
       and auth = "\<lambda>email password. Returns (JPromise (Fulfilled JNull))"
       and p = "JPromise (Fulfilled JNull)" and accessToken = JNull]
  by (simp add: double_defs)

section \<open>The router on a heap\<close>

text \<open>
  The response of a call on a heap is the response of \<open>route\<close> for the router the
  heap presents at that moment.
\<close>

lemmas route_st_defs = route_st_def route_try_st_def destructure_body_def
  isValid_call_st_def auth_call_st_def

lemma isValid_call_st_fst:
  "fst (isValid_call_st h email) = snd (isValid_call (emailValidator (frozen h)) email)"
  by (simp add: isValid_call_st_def isValid_call_def frozen_def case_prod_beta
      split: collaborator.splits)

lemma isValid_call_st_auth:
  "this_authUseCase (snd (isValid_call_st h email)) = this_authUseCase h
   \<and> authUseCase_state (snd (isValid_call_st h email)) = authUseCase_state h"
  by (simp add: isValid_call_st_def case_prod_beta split: collaborator.splits)

lemma auth_call_st_fst:
  assumes "this_authUseCase h1 = this_authUseCase h"
    and "authUseCase_state h1 = authUseCase_state h"
  shows "fst (auth_call_st h1 email password)
           = snd (auth_call (authUseCase (frozen h)) email password)"
  using assms
  by (simp add: auth_call_st_def auth_call_def frozen_def case_prod_beta
      split: collaborator.splits completion.splits)

lemma route_try_st_fst:
  "fst (route_try_st h httpRequest) = snd (route_try (frozen h) httpRequest)"
proof -
  have a: "fst (auth_call_st (snd (isValid_call_st h email)) email password)
             = snd (auth_call (authUseCase (frozen h)) email password)" for email password
    using isValid_call_st_auth [of h email] by (simp add: auth_call_st_fst)
  show ?thesis
    unfolding route_try_st_def route_try_def
    by (simp add: case_prod_beta isValid_call_st_fst [symmetric] a [symmetric]
        split: completion.splits)
qed

lemma route_st_frozen: "fst (route_st h httpRequest) = route (frozen h) httpRequest"
  using route_try_st_fst [of h httpRequest]
  by (simp add: route_st_def route_def route_traced_def case_prod_beta
      split: completion.splits)

text \<open>
  No statement of \<open>route\<close> assigns to a field of the instance, and a collaborator's
  state changes only by a call of its own method.
\<close>

lemma route_st_fields:
  "this_authUseCase (snd (route_st h httpRequest)) = this_authUseCase h
   \<and> this_emailValidator (snd (route_st h httpRequest)) = this_emailValidator h"
  by (simp add: route_st_defs case_prod_beta
      split: completion.splits collaborator.splits)

lemma route_st_states:
  "(emailValidator_state (snd (route_st h httpRequest)) = emailValidator_state h
    \<or> (\<exists>isValid x. this_emailValidator h = Method isValid
          \<and> emailValidator_state (snd (route_st h httpRequest))
              = snd (isValid (emailValidator_state h) x)))
   \<and> (authUseCase_state (snd (route_st h httpRequest)) = authUseCase_state h
    \<or> (\<exists>auth x y. this_authUseCase h = Method auth
          \<and> authUseCase_state (snd (route_st h httpRequest))
              = snd (auth (authUseCase_state h) x y)))"
  by (auto simp add: route_st_defs case_prod_beta
      split: completion.splits collaborator.splits)

lemma frozen_after_route:
  assumes "deterministic_isValid (this_emailValidator h)"
    and "deterministic_auth (this_authUseCase h)"
  shows "frozen (snd (route_st h httpRequest)) = frozen h"
proof -
  let ?h' = "snd (route_st h httpRequest)"
  have v: "map_collaborator (\<lambda>isValid email. fst (isValid (emailValidator_state ?h') email))
             (this_emailValidator h)
         = map_collaborator (\<lambda>isValid email. fst (isValid (emailValidator_state h) email))
             (this_emailValidator h)"
    using assms(1) route_st_states [of h httpRequest]
    by (cases "this_emailValidator h") (auto simp add: deterministic_isValid_def)
  have a: "map_collaborator (\<lambda>auth email password. fst (auth (authUseCase_state ?h') email password))
             (this_authUseCase h)
         = map_collaborator (\<lambda>auth email password. fst (auth (authUseCase_state h) email password))
             (this_authUseCase h)"
    using assms(2) route_st_states [of h httpRequest]
    by (cases "this_authUseCase h") (auto simp add: deterministic_auth_def)
  show ?thesis
    using v a route_st_fields [of h httpRequest] by (simp add: frozen_def)
qed

lemma spies_deterministic:
  "deterministic_isValid (Method EmailValidatorSpy_isValid)"
  "deterministic_auth (Method AuthUseCaseSpy_auth)"
  by (simp_all add: deterministic_isValid_def deterministic_auth_def
      EmailValidatorSpy_isValid_def AuthUseCaseSpy_auth_def)

section \<open>No state between calls\<close>

text \<open>
  C9. With deterministic collaborators, a second call of \<open>route\<close> with the same request,
  on the heap the first call left, gives the response the first call gave; and the
  first call leaves the two fields of the router instance as they were.
\<close>

theorem route_repeatable:
  assumes "deterministic_isValid (this_emailValidator h)"
    and "deterministic_auth (this_authUseCase h)"
  shows "fst (route_st (snd (route_st h httpRequest)) httpRequest) = fst (route_st h httpRequest)
     \<and> this_authUseCase (snd (route_st h httpRequest)) = this_authUseCase h
     \<and> this_emailValidator (snd (route_st h httpRequest)) = this_emailValidator h"
  using frozen_after_route [OF assms, of httpRequest] route_st_fields [of h httpRequest]
  by (simp add: route_st_frozen)

text \<open>
  C9, witness: the two spies of the test suite, which do change their own fields on every
  call, and a request with valid credentials.
\<close>

theorem route_repeatable_witness:
  "deterministic_isValid (this_emailValidator (makeSut_heap (JBool True) (JStr ''any_token'')))
   \<and> deterministic_auth (this_authUseCase (makeSut_heap (JBool True) (JStr ''any_token'')))
   \<and> fst (route_st (makeSut_heap (JBool True) (JStr ''any_token''))
        (request_with_body
           (JObj [(''email'', JStr ''valid_email@email.com''), (''password'', JStr ''valid_password'')])))
      = Returns \<lparr>statusCode = 200, body = None\<rparr>
   \<and> fst (route_st
        (snd (route_st (makeSut_heap (JBool True) (JStr ''any_token''))
           (request_with_body
              (JObj [(''email'', JStr ''valid_email@email.com''), (''password'', JStr ''valid_password'')]))))
        (request_with_body
           (JObj [(''email'', JStr ''valid_email@email.com''), (''password'', JStr ''valid_password'')])))
      = Returns \<lparr>statusCode = 200, body = None\<rparr>"
proof -
  let ?h = "makeSut_heap (JBool True) (JStr ''any_token'')"
  let ?req = "request_with_body
           (JObj [(''email'', JStr ''valid_email@email.com''), (''password'', JStr ''valid_password'')])"
  have d: "deterministic_isValid (this_emailValidator ?h)" "deterministic_auth (this_authUseCase ?h)"
    using spies_deterministic by (simp_all add: makeSut_heap_def)
  have first: "fst (route_st ?h ?req) = Returns \<lparr>statusCode = 200, body = None\<rparr>"
    by (simp add: route_st_defs makeSut_heap_def request_with_body_def response_defs
        EmailValidatorSpy_isValid_def AuthUseCaseSpy_auth_def)
  from route_repeatable [OF d, of ?req] first d show ?thesis by simp
qed

text \<open>
  Without determinism the two responses can differ: the authenticator that gives its
  token once answers the first call with 200 and the second with 401.
\<close>

lemma route_repeat_one_time_auth:
  "fst (route_st \<lparr>this_authUseCase = Method one_time_auth,
                  this_emailValidator = Method EmailValidatorSpy_isValid,
                  authUseCase_state = False,
                  emailValidator_state =
                    \<lparr>validator_email = JUndefined, validator_isEmailValid = JBool True\<rparr>\<rparr>
         (request_with_body (JObj [(''email'', JStr ''a@b.com''), (''password'', JStr ''p'')])))
     = Returns \<lparr>statusCode = 200, body = None\<rparr>
   \<and> fst (route_st
         (snd (route_st \<lparr>this_authUseCase = Method one_time_auth,
                  this_emailValidator = Method EmailValidatorSpy_isValid,
                  authUseCase_state = False,
                  emailValidator_state =
                    \<lparr>validator_email = JUndefined, validator_isEmailValid = JBool True\<rparr>\<rparr>
            (request_with_body (JObj [(''email'', JStr ''a@b.com''), (''password'', JStr ''p'')]))))
         (request_with_body (JObj [(''email'', JStr ''a@b.com''), (''password'', JStr ''p'')])))
     = Returns \<lparr>statusCode = 401, body = Some UnauthorizedError\<rparr>"
  by (simp add: route_st_defs request_with_body_def response_defs
        EmailValidatorSpy_isValid_def one_time_auth_def)

section \<open>Credentials are forwarded as they are\<close>

text \<open>
  C10, as amended. For a record body whose email and password are truthy values of any
  kind, with both collaborators in place: neither presence check rejects the request;
  \<open>isValid\<close> is applied to the very email value of the body; \<open>auth\<close> is applied to the
  very email and password values when \<open>isValid\<close> returns a truthy verdict, and is not
  called when the verdict is falsy or \<open>isValid\<close> throws.
\<close>

theorem route_forwards_credentials:
  assumes "get_prop httpRequest ''body'' = Returns (JObj ps)"
    and "map_of ps ''email'' = Some email" and "map_of ps ''password'' = Some password"
    and "truthy email" and "truthy password"
    and "this_emailValidator h = Method isValid" and "this_authUseCase h = Method auth"
  shows "emailValidator_state (snd (route_st h httpRequest))
           = snd (isValid (emailValidator_state h) email)
     \<and> authUseCase_state (snd (route_st h httpRequest))
           = (if (\<exists>verdict. fst (isValid (emailValidator_state h) email) = Returns verdict
                     \<and> truthy verdict)
              then snd (auth (authUseCase_state h) email password)
              else authUseCase_state h)
     \<and> fst (route_st h httpRequest)
           \<noteq> Returns (HttpResponse_badRequest (MissingParamError (JStr ''email'')))
     \<and> fst (route_st h httpRequest)
           \<noteq> Returns (HttpResponse_badRequest (MissingParamError (JStr ''password'')))"
  using assms
  by (auto simp add: route_st_defs response_defs split: completion.splits prod.splits)

text \<open>
  C10, witness: a number as email and a nested object as password; afterwards the spies
  hold exactly these values.
\<close>

theorem route_forwards_credentials_witness:
  "truthy (JNum 42) \<and> truthy (JObj [(''pin'', JNum 0)])
   \<and> validator_email (emailValidator_state (snd (route_st (makeSut_heap (JBool True) (JStr ''any_token''))
        (request_with_body (JObj [(''email'', JNum 42), (''password'', JObj [(''pin'', JNum 0)])])))))
      = JNum 42
   \<and> auth_email (authUseCase_state (snd (route_st (makeSut_heap (JBool True) (JStr ''any_token''))
        (request_with_body (JObj [(''email'', JNum 42), (''password'', JObj [(''pin'', JNum 0)])])))))
      = JNum 42
   \<and> auth_password (authUseCase_state (snd (route_st (makeSut_heap (JBool True) (JStr ''any_token''))
        (request_with_body (JObj [(''email'', JNum 42), (''password'', JObj [(''pin'', JNum 0)])])))))
      = JObj [(''pin'', JNum 0)]"
  using route_forwards_credentials
    [where h = "makeSut_heap (JBool True) (JStr ''any_token'')"
       and httpRequest = "request_with_body (JObj [(''email'', JNum 42), (''password'', JObj [(''pin'', JNum 0)])])"
       and ps = "[(''email'', JNum 42), (''password'', JObj [(''pin'', JNum 0)])]"
       and email = "JNum 42" and password = "JObj [(''pin'', JNum 0)]"
       and isValid = EmailValidatorSpy_isValid and auth = AuthUseCaseSpy_auth]
  by (simp add: makeSut_heap_def request_with_body_def
      EmailValidatorSpy_isValid_def AuthUseCaseSpy_auth_def)

text \<open>
  C10, counterexample. With the same truthy credentials and a validator that rejects
  the email, the email reaches \<open>isValid\<close> but nothing is forwarded to \<open>auth\<close>: the
  authenticator spy is as it was, and the password it holds is not the body's.
\<close>

theorem route_rejected_email_counterexample:
  "truthy (JNum 42) \<and> truthy (JObj [(''pin'', JNum 0)])
   \<and> validator_email (emailValidator_state (snd (route_st (makeSut_heap (JBool False) (JStr ''any_token''))
        (request_with_body (JObj [(''email'', JNum 42), (''password'', JObj [(''pin'', JNum 0)])])))))
      = JNum 42
   \<and> authUseCase_state (snd (route_st (makeSut_heap (JBool False) (JStr ''any_token''))
        (request_with_body (JObj [(''email'', JNum 42), (''password'', JObj [(''pin'', JNum 0)])]))))
      = authUseCase_state (makeSut_heap (JBool False) (JStr ''any_token''))
   \<and> auth_password (authUseCase_state (snd (route_st (makeSut_heap (JBool False) (JStr ''any_token''))
        (request_with_body (JObj [(''email'', JNum 42), (''password'', JObj [(''pin'', JNum 0)])])))))
      \<noteq> JObj [(''pin'', JNum 0)]"
  by (simp add: route_st_defs makeSut_heap_def request_with_body_def response_defs
      EmailValidatorSpy_isValid_def AuthUseCaseSpy_auth_def)

end
